theory Spec2Isabelle
  imports Main "HOL-Library.Word"
begin

section \<open>Handles\<close>

text \<open>
  \<^verbatim>\<open>using AstNodeIndex = std::uint32_t;\<close>
  \<^verbatim>\<open>static const AstNodeIndex UndefinedAstNodeIndex = std::numeric_limits<AstNodeIndex>::max();\<close>

  The identifier handle type \<^verbatim>\<open>IdIndex\<close> comes from \<^verbatim>\<open>id_cache.hpp\<close>. Handles of that
  type are only compared, hashed, stored and zeroed by \<^verbatim>\<open>ast.hpp\<close>, so the type is a
  parameter \<open>'id\<close> throughout (of class \<open>zero\<close> where \<^verbatim>\<open>memset\<close> clears it).
\<close>

type_synonym AstNodeIndex = "32 word"

definition UndefinedAstNodeIndex :: AstNodeIndex where
  "UndefinedAstNodeIndex = - 1"

section \<open>Ordered symbol dictionary\<close>

text \<open>
  \<^verbatim>\<open>class OrderedDict\<close>: \<open>m_map\<close> is the \<^verbatim>\<open>std::unordered_map<IdIndex, AstNodeIndex>\<close>,
  \<open>m_nodes\<close> the \<^verbatim>\<open>std::vector<AstNodeIndex>\<close>. A default-constructed dictionary has
  both empty.
\<close>

record 'id OrderedDict =
  m_map :: "'id \<rightharpoonup> AstNodeIndex"
  m_nodes :: "AstNodeIndex list"

definition OrderedDict_init :: "'id OrderedDict" where
  "OrderedDict_init = \<lparr>m_map = Map.empty, m_nodes = []\<rparr>"

text \<open>
  \<^verbatim>\<open>void append(IdIndex name, AstNodeIndex node_index)\<close>: both \<^verbatim>\<open>emplace\<close> and
  \<^verbatim>\<open>emplace_back\<close> sit inside the \<^verbatim>\<open>if (it == m_map.end())\<close> block.
\<close>

definition OrderedDict_append :: "'id \<Rightarrow> AstNodeIndex \<Rightarrow> 'id OrderedDict \<Rightarrow> 'id OrderedDict" where
  "OrderedDict_append name node_index d =
     (case m_map d name of
        None \<Rightarrow> d\<lparr>m_map := (m_map d)(name \<mapsto> node_index),
                  m_nodes := m_nodes d @ [node_index]\<rparr>
      | Some _ \<Rightarrow> d)"

text \<open>\<^verbatim>\<open>void append(AstNodeIndex node_index)\<close>, the overload without a name.\<close>

definition OrderedDict_append_unnamed :: "AstNodeIndex \<Rightarrow> 'id OrderedDict \<Rightarrow> 'id OrderedDict" where
  "OrderedDict_append_unnamed node_index d = d\<lparr>m_nodes := m_nodes d @ [node_index]\<rparr>"

definition OrderedDict_find :: "'id \<Rightarrow> 'id OrderedDict \<Rightarrow> AstNodeIndex" where
  "OrderedDict_find name d =
     (case m_map d name of
        None \<Rightarrow> UndefinedAstNodeIndex
      | Some second \<Rightarrow> second)"

definition get_nodes :: "'id OrderedDict \<Rightarrow> AstNodeIndex list" where
  "get_nodes d = m_nodes d"

text \<open>
  A caller's sequence of calls on one dictionary: each call is one of the two overloads
  of \<^verbatim>\<open>append\<close>. \<open>dict_run\<close> performs them from left to right.
\<close>

datatype 'id dict_call = Named 'id AstNodeIndex | Unnamed AstNodeIndex

fun dict_step :: "'id dict_call \<Rightarrow> 'id OrderedDict \<Rightarrow> 'id OrderedDict" where
  "dict_step (Named name node_index) d = OrderedDict_append name node_index d"
| "dict_step (Unnamed node_index) d = OrderedDict_append_unnamed node_index d"

fun dict_run :: "'id dict_call list \<Rightarrow> 'id OrderedDict \<Rightarrow> 'id OrderedDict" where
  "dict_run [] d = d"
| "dict_run (c # cs) d = dict_run cs (dict_step c d)"

text \<open>The names passed to the named \<^verbatim>\<open>append\<close> in a sequence of calls.\<close>

fun named_in :: "'id dict_call list \<Rightarrow> 'id set" where
  "named_in [] = {}"
| "named_in (Named name node_index # cs) = insert name (named_in cs)"
| "named_in (Unnamed node_index # cs) = named_in cs"

text \<open>The node handle of the earliest named \<^verbatim>\<open>append\<close> under a name, if there is one.\<close>

fun first_named :: "'id \<Rightarrow> 'id dict_call list \<Rightarrow> AstNodeIndex option" where
  "first_named nm [] = None"
| "first_named nm (Named name node_index # cs) =
     (if name = nm then Some node_index else first_named nm cs)"
| "first_named nm (Unnamed node_index # cs) = first_named nm cs"

section \<open>Node kinds and their classification\<close>

text \<open>
  \<^verbatim>\<open>enum class Kind\<close>, in the order of the declaration. The enumerator \<^verbatim>\<open>None\<close> is
  \<open>None_Kind\<close>. Each predicate is the \<^verbatim>\<open>switch\<close> of the static member function of the
  same name, its \<^verbatim>\<open>default\<close> branch last.
\<close>

datatype Kind =
    None_Kind | Type | Value
  | I8Type | I16Type | I32Type | U8Type | U16Type | U32Type | F32Type | F64Type
  | StructType | UnionType
  | FunType | FunTypeWithNamedParams | LocalVariable | GlobalVariable | StringLiteral
  | I8Literal | I16Literal | I32Literal | U8Literal | U16Literal | U32Literal
  | F32Literal | F64Literal
  | AssignExpr | EqualExpr | GreatExpr | GreatOrEqualExpr | LessExpr | LessOrEqualExpr
  | ParenthExpr | NegExpr
  | StructField | UnionField
  | Function | Struct | Union | BlockScope
  | VariableDeclStmt | BlockStmt | FunctionDeclStmt | StructDeclStmt | UnionDeclStmt
  | IfElseStmt | WhileStmt

definition is_stmt :: "Kind \<Rightarrow> bool" where
  "is_stmt kind =
     (case kind of
        VariableDeclStmt \<Rightarrow> True
      | BlockStmt \<Rightarrow> True
      | FunctionDeclStmt \<Rightarrow> True
      | StructDeclStmt \<Rightarrow> True
      | UnionDeclStmt \<Rightarrow> True
      | IfElseStmt \<Rightarrow> True
      | WhileStmt \<Rightarrow> True
      | _ \<Rightarrow> False)"

definition is_expr :: "Kind \<Rightarrow> bool" where
  "is_expr kind =
     (case kind of
        AssignExpr \<Rightarrow> True
      | EqualExpr \<Rightarrow> True
      | GreatExpr \<Rightarrow> True
      | GreatOrEqualExpr \<Rightarrow> True
      | LessExpr \<Rightarrow> True
      | LessOrEqualExpr \<Rightarrow> True
      | _ \<Rightarrow> False)"

definition is_scope :: "Kind \<Rightarrow> bool" where
  "is_scope kind =
     (case kind of
        Function \<Rightarrow> True
      | Struct \<Rightarrow> True
      | Union \<Rightarrow> True
      | _ \<Rightarrow> False)"

definition is_type :: "Kind \<Rightarrow> bool" where
  "is_type kind =
     (case kind of
        I8Type \<Rightarrow> True
      | I16Type \<Rightarrow> True
      | I32Type \<Rightarrow> True
      | U8Type \<Rightarrow> True
      | U16Type \<Rightarrow> True
      | U32Type \<Rightarrow> True
      | F32Type \<Rightarrow> True
      | F64Type \<Rightarrow> True
      | StructType \<Rightarrow> True
      | UnionType \<Rightarrow> True
      | FunType \<Rightarrow> True
      | _ \<Rightarrow> False)"

definition is_value :: "Kind \<Rightarrow> bool" where
  "is_value kind =
     (case kind of
        LocalVariable \<Rightarrow> True
      | GlobalVariable \<Rightarrow> True
      | StringLiteral \<Rightarrow> True
      | I8Literal \<Rightarrow> True
      | I16Literal \<Rightarrow> True
      | I32Literal \<Rightarrow> True
      | U8Literal \<Rightarrow> True
      | U16Literal \<Rightarrow> True
      | U32Literal \<Rightarrow> True
      | F32Literal \<Rightarrow> True
      | F64Literal \<Rightarrow> True
      | StructField \<Rightarrow> True
      | UnionField \<Rightarrow> True
      | _ \<Rightarrow> False)"

text \<open>The number of the four classification predicates that hold of a kind.\<close>

definition classes_of :: "Kind \<Rightarrow> bool list" where
  "classes_of kind = filter (\<lambda>b. b) [is_type kind, is_value kind, is_stmt kind, is_scope kind]"

section \<open>Heap-owned lists and dictionaries\<close>

text \<open>
  Some node payloads hold raw pointers to objects made with \<^verbatim>\<open>new\<close>:
  \<^verbatim>\<open>std::vector<AstNodeIndex>*\<close> (parameter types, statements),
  \<^verbatim>\<open>std::vector<IdIndex>*\<close> (parameter names) and \<^verbatim>\<open>OrderedDict*\<close>.
  A pointer is a number, \<open>0\<close> being \<^verbatim>\<open>nullptr\<close>; the heap is the list of all cells
  ever allocated, the cell of pointer \<open>p\<close> at position \<open>p - 1\<close>, \<open>None\<close> once it has
  been deleted. Allocation never hands an address out twice. \<^verbatim>\<open>delete\<close> of a null
  pointer does nothing; \<^verbatim>\<open>delete\<close> or a dereference of a pointer to no live object is
  undefined behaviour, which the model reports as \<open>None\<close>. \<open>heap_delete\<close> does not
  look at the kind of object it frees.
\<close>

type_synonym ptr = nat

datatype 'id obj = Vec "AstNodeIndex list" | IdVec "'id list" | Dict "'id OrderedDict"

type_synonym 'id heap = "'id obj option list"

definition heap_lookup :: "'id heap \<Rightarrow> ptr \<Rightarrow> 'id obj option" where
  "heap_lookup h p = (if p = 0 \<or> length h < p then None else h ! (p - 1))"

definition heap_new :: "'id obj \<Rightarrow> 'id heap \<Rightarrow> ptr \<times> 'id heap" where
  "heap_new ob h = (Suc (length h), h @ [Some ob])"

definition heap_store :: "ptr \<Rightarrow> 'id obj \<Rightarrow> 'id heap \<Rightarrow> 'id heap" where
  "heap_store p ob h = h[p - 1 := Some ob]"

definition heap_delete :: "ptr \<Rightarrow> 'id heap \<Rightarrow> 'id heap option" where
  "heap_delete p h =
     (if p = 0 then Some h
      else if heap_lookup h p = None then None
      else Some (h[p - 1 := None]))"

section \<open>Node payload\<close>

text \<open>
  The structs that are the members of \<^verbatim>\<open>union Node\<close>. \<open>Variable\<close> is the anonymous
  struct of \<^verbatim>\<open>global_variable\<close> and \<^verbatim>\<open>local_variable\<close>; \<open>StructType\<close>,
  \<open>StructField\<close>, \<open>VariableDeclStmt\<close>, \<open>BlockStmt\<close>, \<open>IfElseStmt\<close> and \<open>WhileStmt\<close>
  name the anonymous structs of the members so called.
\<close>

record Value =
  type :: AstNodeIndex

record 'id Variable =
  "value" :: Value
  name :: 'id

record UnaryExpr =
  expr :: AstNodeIndex

record BinaryExpr =
  left :: AstNodeIndex
  right :: AstNodeIndex

record 'id StringLiteral =
  "value" :: Value
  string :: 'id

record 'v NumberLiteral =
  "value" :: Value
  literal_value :: 'v

record 'id FunType =
  return_type :: AstNodeIndex
  param_types :: ptr
  name :: 'id

record StructType =
  struct_scope :: AstNodeIndex

record 'id StructField =
  "value" :: Value
  name :: 'id
  offset :: "32 word"

record 'id Scope =
  outer_scope :: AstNodeIndex
  name :: 'id
  dict :: ptr

record VariableDeclStmt =
  variable :: AstNodeIndex
  init_expr :: AstNodeIndex

record BlockStmt =
  block_scope :: AstNodeIndex
  stmts :: ptr

record IfElseStmt =
  expr :: AstNodeIndex
  stmt :: AstNodeIndex
  else_stmt :: AstNodeIndex

record WhileStmt =
  expr :: AstNodeIndex
  stmt :: AstNodeIndex

text \<open>
  \<^verbatim>\<open>union Node\<close>. In the program all members share one block of storage; the model
  keeps one cell for each member, so that it says nothing about reading a member other
  than the one last written, except where the program itself relies on a shared initial
  part:
  \<^item> \<open>fun_type\<close> is also \<^verbatim>\<open>fun_type_with_named_params.fun_type\<close> (the struct's first
    member), and \<open>names\<close> is \<^verbatim>\<open>fun_type_with_named_params.names\<close>;
  \<^item> \<open>scope\<close> is also the \<^verbatim>\<open>Scope scope\<close> that begins \<^verbatim>\<open>block_scope\<close>, \<^verbatim>\<open>function\<close>,
    \<^verbatim>\<open>struc\<close> and \<^verbatim>\<open>unio\<close>; \<open>block_scope_block_stmt\<close> is \<^verbatim>\<open>block_scope.block_stmt\<close> and
    \<open>function_type_with_named_params\<close> is \<^verbatim>\<open>function.function_type_with_named_params\<close>.
  \<^verbatim>\<open>memset(this, 0, sizeof(AstNode))\<close> clears every cell: \<open>Node_zero\<close>.
\<close>

record 'id Node =
  "value" :: Value
  global_variable :: "'id Variable"
  local_variable :: "'id Variable"
  parenth_expr :: UnaryExpr
  neg_expr :: UnaryExpr
  assign_expr :: BinaryExpr
  equal_expr :: BinaryExpr
  great_expr :: BinaryExpr
  great__or_equal_expr :: BinaryExpr
  less_expr :: BinaryExpr
  less_or_equal_expr :: BinaryExpr
  string_literal :: "'id StringLiteral"
  i8_literal :: "8 word NumberLiteral"
  i16_literal :: "16 word NumberLiteral"
  i32_literal :: "32 word NumberLiteral"
  i64_literal :: "64 word NumberLiteral"
  u8_literal :: "8 word NumberLiteral"
  u16_literal :: "16 word NumberLiteral"
  u32_literal :: "32 word NumberLiteral"
  fun_type :: "'id FunType"
  names :: ptr
  struct_type :: StructType
  struct_field :: "'id StructField"
  scope :: "'id Scope"
  block_scope_block_stmt :: AstNodeIndex
  function_type_with_named_params :: AstNodeIndex
  variable_decl_stmt :: VariableDeclStmt
  block_stmt :: BlockStmt
  if_else_stmt :: IfElseStmt
  while_stmt :: WhileStmt

definition Node_zero :: "('id::zero) Node" where
  "Node_zero =
     \<lparr>value = \<lparr>type = 0\<rparr>,
      global_variable = \<lparr>Variable.value = \<lparr>type = 0\<rparr>, Variable.name = 0\<rparr>,
      local_variable = \<lparr>Variable.value = \<lparr>type = 0\<rparr>, Variable.name = 0\<rparr>,
      parenth_expr = \<lparr>UnaryExpr.expr = 0\<rparr>,
      neg_expr = \<lparr>UnaryExpr.expr = 0\<rparr>,
      assign_expr = \<lparr>left = 0, right = 0\<rparr>,
      equal_expr = \<lparr>left = 0, right = 0\<rparr>,
      great_expr = \<lparr>left = 0, right = 0\<rparr>,
      great__or_equal_expr = \<lparr>left = 0, right = 0\<rparr>,
      less_expr = \<lparr>left = 0, right = 0\<rparr>,
      less_or_equal_expr = \<lparr>left = 0, right = 0\<rparr>,
      string_literal = \<lparr>StringLiteral.value = \<lparr>type = 0\<rparr>, string = 0\<rparr>,
      i8_literal = \<lparr>NumberLiteral.value = \<lparr>type = 0\<rparr>, literal_value = 0\<rparr>,
      i16_literal = \<lparr>NumberLiteral.value = \<lparr>type = 0\<rparr>, literal_value = 0\<rparr>,
      i32_literal = \<lparr>NumberLiteral.value = \<lparr>type = 0\<rparr>, literal_value = 0\<rparr>,
      i64_literal = \<lparr>NumberLiteral.value = \<lparr>type = 0\<rparr>, literal_value = 0\<rparr>,
      u8_literal = \<lparr>NumberLiteral.value = \<lparr>type = 0\<rparr>, literal_value = 0\<rparr>,
      u16_literal = \<lparr>NumberLiteral.value = \<lparr>type = 0\<rparr>, literal_value = 0\<rparr>,
      u32_literal = \<lparr>NumberLiteral.value = \<lparr>type = 0\<rparr>, literal_value = 0\<rparr>,
      fun_type = \<lparr>return_type = 0, param_types = 0, FunType.name = 0\<rparr>,
      names = 0,
      struct_type = \<lparr>struct_scope = 0\<rparr>,
      struct_field = \<lparr>StructField.value = \<lparr>type = 0\<rparr>, StructField.name = 0, offset = 0\<rparr>,
      scope = \<lparr>outer_scope = 0, name = 0, dict = 0\<rparr>,
      block_scope_block_stmt = 0,
      function_type_with_named_params = 0,
      variable_decl_stmt = \<lparr>variable = 0, init_expr = 0\<rparr>,
      block_stmt = \<lparr>block_scope = 0, stmts = 0\<rparr>,
      if_else_stmt = \<lparr>IfElseStmt.expr = 0, IfElseStmt.stmt = 0, else_stmt = 0\<rparr>,
      while_stmt = \<lparr>expr = 0, stmt = 0\<rparr>\<rparr>"

subsection \<open>Member functions that allocate\<close>

text \<open>
  \<^verbatim>\<open>FunType::add_param_type\<close>, \<^verbatim>\<open>FunTypeWithNamedParams::add_name\<close>,
  \<^verbatim>\<open>Scope::add_node\<close> and \<^verbatim>\<open>add_stmt\<close> of the block statement: each allocates its
  list or dictionary on first use and then appends to it. \<^verbatim>\<open>UndefinedIdIndex\<close> comes from
  the absent \<^verbatim>\<open>id_cache.hpp\<close> and is a parameter of \<open>add_node\<close>.
\<close>

definition add_param_type ::
  "AstNodeIndex \<Rightarrow> 'id FunType \<Rightarrow> 'id heap \<Rightarrow> ('id FunType \<times> 'id heap) option" where
  "add_param_type ty ft h =
     (let (ft1, h1) =
        (if param_types ft = 0
         then (let (p, h') = heap_new (Vec []) h in (ft\<lparr>param_types := p\<rparr>, h'))
         else (ft, h))
      in case heap_lookup h1 (param_types ft1) of
           Some (Vec xs) \<Rightarrow> Some (ft1, heap_store (param_types ft1) (Vec (xs @ [ty])) h1)
         | _ \<Rightarrow> None)"

definition add_name :: "'id \<Rightarrow> ptr \<Rightarrow> 'id heap \<Rightarrow> (ptr \<times> 'id heap) option" where
  "add_name ident names_ptr h =
     (let (p1, h1) = (if names_ptr = 0 then heap_new (IdVec []) h else (names_ptr, h))
      in case heap_lookup h1 p1 of
           Some (IdVec xs) \<Rightarrow> Some (p1, heap_store p1 (IdVec (xs @ [ident])) h1)
         | _ \<Rightarrow> None)"

definition add_node ::
  "'id \<Rightarrow> AstNodeIndex \<Rightarrow> 'id \<Rightarrow> 'id Scope \<Rightarrow> 'id heap \<Rightarrow> ('id Scope \<times> 'id heap) option" where
  "add_node UndefinedIdIndex node_idx nm sc h =
     (let (sc1, h1) =
        (if dict sc = 0
         then (let (p, h') = heap_new (Dict OrderedDict_init) h in (sc\<lparr>dict := p\<rparr>, h'))
         else (sc, h))
      in case heap_lookup h1 (dict sc1) of
           Some (Dict d) \<Rightarrow>
             Some (sc1, heap_store (dict sc1)
                     (Dict (if nm \<noteq> UndefinedIdIndex
                            then OrderedDict_append nm node_idx d
                            else OrderedDict_append_unnamed node_idx d)) h1)
         | _ \<Rightarrow> None)"

definition add_stmt ::
  "AstNodeIndex \<Rightarrow> BlockStmt \<Rightarrow> 'id heap \<Rightarrow> (BlockStmt \<times> 'id heap) option" where
  "add_stmt node_idx bs h =
     (let (bs1, h1) =
        (if stmts bs = 0
         then (let (p, h') = heap_new (Vec []) h in (bs\<lparr>stmts := p\<rparr>, h'))
         else (bs, h))
      in case heap_lookup h1 (stmts bs1) of
           Some (Vec xs) \<Rightarrow> Some (bs1, heap_store (stmts bs1) (Vec (xs @ [node_idx])) h1)
         | _ \<Rightarrow> None)"

section \<open>AST nodes\<close>

record 'id AstNode =
  kind :: Kind
  node :: "'id Node"

text \<open>The constructor \<^verbatim>\<open>AstNode(Kind kind)\<close>: clear everything, then set the kind.\<close>

definition AstNode_init :: "Kind \<Rightarrow> ('id::zero) AstNode" where
  "AstNode_init k = \<lparr>kind = k, node = Node_zero\<rparr>"

text \<open>
  \<^verbatim>\<open>void clean()\<close>. The case of \<^verbatim>\<open>FunTypeWithNamedParams\<close> has no \<^verbatim>\<open>break\<close> and falls
  through into the case of \<^verbatim>\<open>FunType\<close>. The result is the cleared node and the heap
  after the deletions.
\<close>

definition clean :: "('id::zero) AstNode \<Rightarrow> 'id heap \<Rightarrow> ('id AstNode \<times> 'id heap) option" where
  "clean n h =
     (case (case kind n of
              FunTypeWithNamedParams \<Rightarrow>
                (case heap_delete (names (node n)) h of
                   None \<Rightarrow> None
                 | Some h1 \<Rightarrow> heap_delete (param_types (fun_type (node n))) h1)
            | FunType \<Rightarrow> heap_delete (param_types (fun_type (node n))) h
            | Function \<Rightarrow> heap_delete (dict (scope (node n))) h
            | Struct \<Rightarrow> heap_delete (dict (scope (node n))) h
            | Union \<Rightarrow> heap_delete (dict (scope (node n))) h
            | BlockStmt \<Rightarrow> heap_delete (stmts (block_stmt (node n))) h
            | _ \<Rightarrow> Some h) of
        None \<Rightarrow> None
      | Some h' \<Rightarrow> Some (\<lparr>kind = None_Kind, node = Node_zero\<rparr>, h'))"

section \<open>The arena\<close>

text \<open>
  \<^verbatim>\<open>class Ast\<close>: \<open>nodes\<close> is the \<^verbatim>\<open>std::deque<AstNode>\<close>, \<open>removed\<close> the
  \<^verbatim>\<open>std::deque<AstNodeIndex>\<close> whose back is the end of the list. Indexing \<^verbatim>\<open>nodes\<close>
  out of range is undefined behaviour, reported as \<open>None\<close>.
\<close>

record 'id Ast =
  nodes :: "'id AstNode list"
  removed :: "AstNodeIndex list"

definition Ast_init :: "'id Ast" where
  "Ast_init = \<lparr>nodes = [], removed = []\<rparr>"

definition get_node :: "AstNodeIndex \<Rightarrow> 'id Ast \<Rightarrow> 'id AstNode option" where
  "get_node index a =
     (if unat index < length (nodes a) then Some (nodes a ! unat index) else None)"

text \<open>
  \<^verbatim>\<open>AstNodeIndex create(AstNode::Kind kind)\<close>. The fresh handle is
  \<^verbatim>\<open>nodes.size() - 1\<close> converted to 32 bits.
\<close>

definition Ast_create :: "Kind \<Rightarrow> ('id::zero) Ast \<Rightarrow> (AstNodeIndex \<times> 'id Ast) option" where
  "Ast_create k a =
     (if removed a = []
      then (let nodes' = nodes a @ [AstNode_init k]
            in Some (of_nat (length nodes' - 1), a\<lparr>nodes := nodes'\<rparr>))
      else (let index = last (removed a)
            in if unat index < length (nodes a)
               then Some (index,
                          a\<lparr>nodes := (nodes a)[unat index := (nodes a ! unat index)\<lparr>kind := k\<rparr>],
                            removed := butlast (removed a)\<rparr>)
               else None))"

text \<open>\<^verbatim>\<open>void remove(AstNodeIndex index)\<close>.\<close>

definition Ast_remove ::
  "AstNodeIndex \<Rightarrow> ('id::zero) Ast \<Rightarrow> 'id heap \<Rightarrow> ('id Ast \<times> 'id heap) option" where
  "Ast_remove index a h =
     (if unat index < length (nodes a)
      then (case clean (nodes a ! unat index) h of
              None \<Rightarrow> None
            | Some (n', h') \<Rightarrow>
                Some (a\<lparr>nodes := (nodes a)[unat index := n'],
                        removed := removed a @ [index]\<rparr>, h'))
      else None)"

subsection \<open>Sequences of calls on an arena\<close>

text \<open>
  What a user of the arena can do: \<open>Create\<close> and \<open>Remove\<close> are the two member functions;
  \<open>Set_kind\<close> and \<open>Set_payload\<close> are writes through the reference that \<^verbatim>\<open>get_node\<close>
  returns; \<open>Set_heap\<close> stands for any allocation, deletion or list update the user does
  on the heap in between. Nothing is checked by the arena: a write or a removal through
  a handle out of range is undefined behaviour (\<open>None\<close>).
\<close>

datatype 'id Ast_call =
    Create Kind
  | Remove AstNodeIndex
  | Set_kind AstNodeIndex Kind
  | Set_payload AstNodeIndex "'id Node"
  | Set_heap "'id heap"

fun Ast_step ::
  "('id::zero) Ast_call \<Rightarrow> 'id Ast \<times> 'id heap \<Rightarrow> ('id Ast \<times> 'id heap) option" where
  "Ast_step (Create k) (a, h) =
     (case Ast_create k a of None \<Rightarrow> None | Some (index, a') \<Rightarrow> Some (a', h))"
| "Ast_step (Remove index) (a, h) = Ast_remove index a h"
| "Ast_step (Set_kind index k) (a, h) =
     (if unat index < length (nodes a)
      then Some (a\<lparr>nodes := (nodes a)[unat index := (nodes a ! unat index)\<lparr>kind := k\<rparr>]\<rparr>, h)
      else None)"
| "Ast_step (Set_payload index p) (a, h) =
     (if unat index < length (nodes a)
      then Some (a\<lparr>nodes := (nodes a)[unat index := (nodes a ! unat index)\<lparr>node := p\<rparr>]\<rparr>, h)
      else None)"
| "Ast_step (Set_heap h') (a, h) = Some (a, h')"

fun Ast_run ::
  "('id::zero) Ast_call list \<Rightarrow> 'id Ast \<times> 'id heap \<Rightarrow> ('id Ast \<times> 'id heap) option" where
  "Ast_run [] s = Some s"
| "Ast_run (c # cs) s = (case Ast_step c s of None \<Rightarrow> None | Some s' \<Rightarrow> Ast_run cs s')"

text \<open>
  The caller discipline the arena relies on: a handle is used for a removal or a write
  only while its node is live, that is, created and not removed since.
\<close>

definition live :: "'id Ast \<Rightarrow> AstNodeIndex \<Rightarrow> bool" where
  "live a index \<longleftrightarrow> unat index < length (nodes a) \<and> index \<notin> set (removed a)"

fun permitted :: "'id Ast_call \<Rightarrow> 'id Ast \<Rightarrow> bool" where
  "permitted (Create k) a = True"
| "permitted (Remove index) a = live a index"
| "permitted (Set_kind index k) a = live a index"
| "permitted (Set_payload index p) a = live a index"
| "permitted (Set_heap h') a = True"

fun disciplined :: "('id::zero) Ast_call list \<Rightarrow> 'id Ast \<times> 'id heap \<Rightarrow> bool" where
  "disciplined [] s = True"
| "disciplined (c # cs) s =
     (permitted c (fst s) \<and>
      (case Ast_step c s of None \<Rightarrow> False | Some s' \<Rightarrow> disciplined cs s'))"

text \<open>
  The state of the free list that the discipline maintains: no handle is on it twice, and
  each handle on it addresses a slot that \<open>clean\<close> has cleared and nobody has written
  since.
\<close>

definition free_slots_clean :: "('id::zero) Ast \<Rightarrow> bool" where
  "free_slots_clean a \<longleftrightarrow>
     distinct (removed a) \<and>
     (\<forall>index \<in> set (removed a).
        unat index < length (nodes a) \<and>
        nodes a ! unat index = \<lparr>kind = None_Kind, node = Node_zero\<rparr>)"

text \<open>The pointers that \<open>clean\<close> deletes for a node, by its kind.\<close>

definition owned :: "'id AstNode \<Rightarrow> ptr list" where
  "owned n =
     (case kind n of
        FunTypeWithNamedParams \<Rightarrow> [names (node n), param_types (fun_type (node n))]
      | FunType \<Rightarrow> [param_types (fun_type (node n))]
      | Function \<Rightarrow> [dict (scope (node n))]
      | Struct \<Rightarrow> [dict (scope (node n))]
      | Union \<Rightarrow> [dict (scope (node n))]
      | BlockStmt \<Rightarrow> [stmts (block_stmt (node n))]
      | _ \<Rightarrow> [])"

section \<open>Classification\<close>

text \<open>
  C8: the classification predicates \<open>is_type\<close>, \<open>is_value\<close>, \<open>is_stmt\<close> and \<open>is_scope\<close> are
  pairwise disjoint: for every kind, at most one of the four returns true.
\<close>

theorem classification_disjoint:
  "length (classes_of k) \<le> 1"
  by (cases k) (simp_all add: classes_of_def is_type_def is_value_def is_stmt_def is_scope_def)

text \<open>
  C2: \<open>is_type\<close> has no case for the function type with named parameters, so the
  \<^verbatim>\<open>default\<close> branch answers false for it, while the plain function type is a type.
\<close>

theorem is_type_FunTypeWithNamedParams:
  "is_type FunTypeWithNamedParams = False \<and> is_type FunType = True"
  by (simp add: is_type_def)

section \<open>Properties of the ordered symbol dictionary\<close>

lemma dict_run_append: "dict_run (xs @ ys) d = dict_run ys (dict_run xs d)"
  by (induction xs arbitrary: d) simp_all

lemma m_map_dict_run:
  "m_map (dict_run cs d) nm =
     (case m_map d nm of Some v \<Rightarrow> Some v | None \<Rightarrow> first_named nm cs)"
proof (induction cs arbitrary: d)
  case Nil
  then show ?case by (simp split: option.splits)
next
  case (Cons c cs)
  show ?case
  proof (cases c)
    case (Named x n)
    then show ?thesis
      by (simp add: Cons.IH OrderedDict_append_def split: option.splits)
  next
    case (Unnamed n)
    then show ?thesis
      by (simp add: Cons.IH OrderedDict_append_unnamed_def split: option.splits)
  qed
qed

lemma first_named_None: "first_named nm cs = None \<longleftrightarrow> nm \<notin> named_in cs"
  by (induction nm cs rule: first_named.induct) auto

lemma first_named_split:
  "nm \<notin> named_in pre \<Longrightarrow> first_named nm (pre @ Named nm n # post) = Some n"
  by (induction nm pre rule: first_named.induct) auto

lemma find_dict_run:
  "OrderedDict_find nm (dict_run cs OrderedDict_init) =
     (case first_named nm cs of None \<Rightarrow> UndefinedAstNodeIndex | Some v \<Rightarrow> v)"
  by (simp add: OrderedDict_find_def m_map_dict_run OrderedDict_init_def)

lemma dom_m_map_dict_run:
  "dom (m_map (dict_run cs OrderedDict_init)) = named_in cs"
  using first_named_None[of _ cs]
  by (auto simp: m_map_dict_run OrderedDict_init_def dom_def)

text \<open>
  C3: after any sequence of \<^verbatim>\<open>append\<close> calls on a fresh dictionary, \<^verbatim>\<open>find(name)\<close>
  returns the node handle of the earliest named \<^verbatim>\<open>append\<close> under that name, whatever
  was appended before it under other names and whatever was appended after it.
\<close>

theorem find_first_wins:
  "nm \<notin> named_in pre \<Longrightarrow>
   OrderedDict_find nm (dict_run (pre @ Named nm n # post) OrderedDict_init) = n"
  by (simp add: find_dict_run first_named_split)

theorem find_first_wins_witness:
  "(1::nat) \<notin> named_in [Named 0 5, Unnamed 6] \<and>
   OrderedDict_find (1::nat)
     (dict_run ([Named 0 5, Unnamed 6] @ Named 1 7 # [Named 1 8, Named 0 9]) OrderedDict_init) = 7"
  using find_first_wins [of "1::nat" "[Named 0 5, Unnamed 6]" 7 "[Named 1 8, Named 0 9]"]
  by simp

text \<open>
  C1, as stated, fails: the second \<^verbatim>\<open>append\<close> under the name \<open>0\<close> is not added to
  the ordered sequence, so that after \<open>(0, 1)\<close>, \<open>(0, 2)\<close>, \<open>(1, 3)\<close> the sequence is
  \<open>[1, 3]\<close> and not \<open>[1, 2, 3]\<close>.
\<close>

theorem append_duplicate_counterexample:
  "get_nodes (dict_run [Named (0::nat) 1, Named 0 2, Named 1 3] OrderedDict_init) = [1, 3] \<and>
   get_nodes (dict_run [Named (0::nat) 1, Named 0 2, Named 1 3] OrderedDict_init) \<noteq> [1, 2, 3]"
  by (simp add: get_nodes_def OrderedDict_append_def OrderedDict_init_def)

text \<open>
  C1, amended: on a dictionary reached by any sequence of \<^verbatim>\<open>append\<close> calls, the first
  named \<^verbatim>\<open>append\<close> of a name records the mapping and appends the node to the ordered
  sequence; a later named \<^verbatim>\<open>append\<close> of the same name changes nothing, neither the
  mapping nor the ordered sequence. Inserting \<open>(a, n1)\<close>, \<open>(a, n2)\<close>, \<open>(b, n3)\<close> with
  \<open>a \<noteq> b\<close> yields \<open>find(a) = n1\<close>, \<open>find(b) = n3\<close> and \<open>nodes() = [n1, n3]\<close>.
\<close>

theorem append_named:
  "(nm \<notin> named_in cs \<longrightarrow>
      m_map (OrderedDict_append nm n (dict_run cs OrderedDict_init)) =
        (m_map (dict_run cs OrderedDict_init))(nm \<mapsto> n) \<and>
      get_nodes (OrderedDict_append nm n (dict_run cs OrderedDict_init)) =
        get_nodes (dict_run cs OrderedDict_init) @ [n]) \<and>
   (nm \<in> named_in cs \<longrightarrow>
      OrderedDict_append nm n (dict_run cs OrderedDict_init) = dict_run cs OrderedDict_init) \<and>
   (a \<noteq> b \<longrightarrow>
      OrderedDict_find a (dict_run [Named a n1, Named a n2, Named b n3] OrderedDict_init) = n1 \<and>
      OrderedDict_find b (dict_run [Named a n1, Named a n2, Named b n3] OrderedDict_init) = n3 \<and>
      get_nodes (dict_run [Named a n1, Named a n2, Named b n3] OrderedDict_init) = [n1, n3])"
proof -
  let ?d = "dict_run cs OrderedDict_init"
  have fresh: "m_map ?d nm = None" if "nm \<notin> named_in cs"
    using that dom_m_map_dict_run[of cs] by (auto simp: dom_def)
  have old: "\<exists>v. m_map ?d nm = Some v" if "nm \<in> named_in cs"
    using that dom_m_map_dict_run[of cs] by (auto simp: dom_def)
  have 1: "nm \<notin> named_in cs \<longrightarrow>
      m_map (OrderedDict_append nm n ?d) = (m_map ?d)(nm \<mapsto> n) \<and>
      get_nodes (OrderedDict_append nm n ?d) = get_nodes ?d @ [n]"
    using fresh by (simp add: OrderedDict_append_def get_nodes_def)
  have 2: "nm \<in> named_in cs \<longrightarrow> OrderedDict_append nm n ?d = ?d"
    using old by (auto simp: OrderedDict_append_def)
  have 3: "a \<noteq> b \<longrightarrow>
      OrderedDict_find a (dict_run [Named a n1, Named a n2, Named b n3] OrderedDict_init) = n1 \<and>
      OrderedDict_find b (dict_run [Named a n1, Named a n2, Named b n3] OrderedDict_init) = n3 \<and>
      get_nodes (dict_run [Named a n1, Named a n2, Named b n3] OrderedDict_init) = [n1, n3]"
    by (simp add: get_nodes_def OrderedDict_append_def OrderedDict_init_def OrderedDict_find_def)
  from 1 2 3 show ?thesis by blast
qed

theorem append_named_witness:
  "(2::nat) \<notin> named_in [Named 0 5, Unnamed 6] \<and>
   get_nodes (OrderedDict_append (2::nat) 7 (dict_run [Named 0 5, Unnamed 6] OrderedDict_init)) =
     get_nodes (dict_run [Named 0 5, Unnamed 6] OrderedDict_init) @ [7] \<and>
   (0::nat) \<in> named_in [Named 0 5, Unnamed 6] \<and>
   OrderedDict_append (0::nat) 7 (dict_run [Named 0 5, Unnamed 6] OrderedDict_init) =
     dict_run [Named 0 5, Unnamed 6] OrderedDict_init \<and>
   (0::nat) \<noteq> 1 \<and>
   OrderedDict_find (0::nat) (dict_run [Named 0 1, Named 0 2, Named 1 3] OrderedDict_init) = 1 \<and>
   OrderedDict_find (1::nat) (dict_run [Named 0 1, Named 0 2, Named 1 3] OrderedDict_init) = 3 \<and>
   get_nodes (dict_run [Named (0::nat) 1, Named 0 2, Named 1 3] OrderedDict_init) = [1, 3]"
  using append_named [of "2::nat" "[Named 0 5, Unnamed 6]" 7 0 1 1 2 3]
    append_named [of "0::nat" "[Named 0 5, Unnamed 6]" 7 0 1 1 2 3]
  by (simp add: get_nodes_def OrderedDict_append_def OrderedDict_append_unnamed_def
      OrderedDict_init_def OrderedDict_find_def)

text \<open>
  C10: the sentinel \<open>UndefinedAstNodeIndex\<close> is \<open>2^32 - 1\<close>; \<^verbatim>\<open>find(name)\<close> returns it
  whenever the name was never passed to the named \<^verbatim>\<open>append\<close>, and it returns it in
  exactly one other situation, when the handle first appended under that name is itself
  \<open>2^32 - 1\<close>: the sentinel is in band and the two cannot be told apart.
\<close>

theorem find_sentinel:
  "unat UndefinedAstNodeIndex = 2 ^ 32 - 1 \<and>
   (nm \<notin> named_in cs \<longrightarrow>
      OrderedDict_find nm (dict_run cs OrderedDict_init) = UndefinedAstNodeIndex) \<and>
   (OrderedDict_find nm (dict_run cs OrderedDict_init) = UndefinedAstNodeIndex \<longleftrightarrow>
      nm \<notin> named_in cs \<or> first_named nm cs = Some UndefinedAstNodeIndex)"
proof -
  have 1: "unat UndefinedAstNodeIndex = 2 ^ 32 - 1"
    by (simp add: UndefinedAstNodeIndex_def unsigned_minus_1_eq_mask mask_eq_exp_minus_1)
  have 2: "nm \<notin> named_in cs \<longrightarrow>
      OrderedDict_find nm (dict_run cs OrderedDict_init) = UndefinedAstNodeIndex"
    using first_named_None[of nm cs] by (auto simp: find_dict_run split: option.splits)
  have 3: "OrderedDict_find nm (dict_run cs OrderedDict_init) = UndefinedAstNodeIndex \<longleftrightarrow>
      nm \<notin> named_in cs \<or> first_named nm cs = Some UndefinedAstNodeIndex"
    using first_named_None[of nm cs] by (auto simp: find_dict_run split: option.splits)
  from 1 2 3 show ?thesis by blast
qed

theorem find_sentinel_witness:
  "(1::nat) \<notin> named_in [Named 0 5, Unnamed 6, Named 2 UndefinedAstNodeIndex] \<and>
   OrderedDict_find (1::nat)
     (dict_run [Named 0 5, Unnamed 6, Named 2 UndefinedAstNodeIndex] OrderedDict_init) =
     UndefinedAstNodeIndex \<and>
   (2::nat) \<in> named_in [Named 0 5, Unnamed 6, Named 2 UndefinedAstNodeIndex] \<and>
   OrderedDict_find (2::nat)
     (dict_run [Named 0 5, Unnamed 6, Named 2 UndefinedAstNodeIndex] OrderedDict_init) =
     UndefinedAstNodeIndex \<and>
   OrderedDict_find (0::nat)
     (dict_run [Named 0 5, Unnamed 6, Named 2 UndefinedAstNodeIndex] OrderedDict_init) \<noteq>
     UndefinedAstNodeIndex"
  using find_sentinel [of "1::nat" "[Named 0 5, Unnamed 6, Named 2 UndefinedAstNodeIndex]"]
    find_sentinel [of "2::nat" "[Named 0 5, Unnamed 6, Named 2 UndefinedAstNodeIndex]"]
    find_sentinel [of "0::nat" "[Named 0 5, Unnamed 6, Named 2 UndefinedAstNodeIndex]"]
  by (simp add: UndefinedAstNodeIndex_def OrderedDict_append_def OrderedDict_append_unnamed_def
      OrderedDict_init_def OrderedDict_find_def)

section \<open>Properties of the arena\<close>

lemma Node_zero_ptrs:
  "names Node_zero = 0"
  "param_types (fun_type Node_zero) = 0"
  "dict (scope Node_zero) = 0"
  "stmts (block_stmt Node_zero) = 0"
  by (simp_all add: Node_zero_def)

lemmas arena_eval = Node_zero_ptrs
  Ast_create_def Ast_remove_def clean_def AstNode_init_def Ast_init_def heap_delete_def
  heap_lookup_def get_node_def live_def Let_def

lemma clean_Some:
  "clean n h = Some (n', h') \<Longrightarrow> n' = \<lparr>kind = None_Kind, node = Node_zero\<rparr>"
  by (auto simp: clean_def split: option.splits)

lemma Ast_create_fresh:
  "removed a = [] \<Longrightarrow>
   Ast_create k a = Some (of_nat (length (nodes a)), a\<lparr>nodes := nodes a @ [AstNode_init k]\<rparr>)"
  by (simp add: Ast_create_def Let_def)

lemma Ast_create_reuse:
  "removed a \<noteq> [] \<Longrightarrow> unat (last (removed a)) < length (nodes a) \<Longrightarrow>
   Ast_create k a =
     Some (last (removed a),
           a\<lparr>nodes := (nodes a)[unat (last (removed a)) :=
                        (nodes a ! unat (last (removed a)))\<lparr>kind := k\<rparr>],
             removed := butlast (removed a)\<rparr>)"
  by (simp add: Ast_create_def Let_def)

lemma Ast_remove_Some:
  "Ast_remove index a h = Some (a', h') \<Longrightarrow>
   unat index < length (nodes a) \<and>
   a' = a\<lparr>nodes := (nodes a)[unat index := \<lparr>kind = None_Kind, node = Node_zero\<rparr>],
          removed := removed a @ [index]\<rparr> \<and>
   clean (nodes a ! unat index) h = Some (\<lparr>kind = None_Kind, node = Node_zero\<rparr>, h')"
  by (auto simp: Ast_remove_def split: if_splits option.splits dest: clean_Some)

lemma unat_neq: "(i :: AstNodeIndex) \<noteq> j \<Longrightarrow> unat i \<noteq> unat j"
  by (simp add: word_unat_eq_iff)

lemma heap_delete_frame:
  assumes "heap_delete p h = Some h'"
  shows "heap_lookup h' p = None" and "q \<noteq> p \<Longrightarrow> heap_lookup h' q = heap_lookup h q"
proof -
  show "heap_lookup h' p = None"
    using assms by (auto simp: heap_delete_def heap_lookup_def split: if_splits)
  show "heap_lookup h' q = heap_lookup h q" if "q \<noteq> p"
  proof (cases "p = 0")
    case True
    with assms show ?thesis by (simp add: heap_delete_def)
  next
    case False
    with assms have h': "h' = h[p - 1 := None]"
      by (auto simp: heap_delete_def split: if_splits)
    show ?thesis
    proof (cases "q = 0")
      case True
      then show ?thesis by (simp add: heap_lookup_def)
    next
      case q: False
      with False that have "q - 1 \<noteq> p - 1" by arith
      then show ?thesis by (simp add: h' heap_lookup_def)
    qed
  qed
qed

lemma clean_frame:
  assumes "clean n h = Some (n', h')"
  shows "\<forall>p \<in> set (owned n). heap_lookup h' p = None"
    and "\<forall>q. q \<notin> set (owned n) \<longrightarrow> heap_lookup h' q = heap_lookup h q"
proof -
  have both: "(\<forall>p \<in> set (owned n). heap_lookup h' p = None) \<and>
      (\<forall>q. q \<notin> set (owned n) \<longrightarrow> heap_lookup h' q = heap_lookup h q)"
  proof (cases "kind n = FunTypeWithNamedParams")
    case True
    with assms obtain h1 where
      d1: "heap_delete (names (node n)) h = Some h1" and
      d2: "heap_delete (param_types (fun_type (node n))) h1 = Some h'"
      by (auto simp: clean_def split: option.splits)
    have o: "owned n = [names (node n), param_types (fun_type (node n))]"
      using True by (simp add: owned_def)
    have "heap_lookup h' (names (node n)) = None"
    proof (cases "names (node n) = param_types (fun_type (node n))")
      case True
      then show ?thesis using heap_delete_frame(1)[OF d2] by simp
    next
      case False
      then show ?thesis
        using heap_delete_frame(2)[OF d2, of "names (node n)"] heap_delete_frame(1)[OF d1]
        by simp
    qed
    moreover have "heap_lookup h' (param_types (fun_type (node n))) = None"
      using heap_delete_frame(1)[OF d2] .
    moreover have "heap_lookup h' q = heap_lookup h q"
      if "q \<noteq> names (node n)" "q \<noteq> param_types (fun_type (node n))" for q
      using heap_delete_frame(2)[OF d2, of q] heap_delete_frame(2)[OF d1, of q] that by simp
    ultimately show ?thesis by (simp add: o)
  next
    case False
    consider (one) p where "owned n = [p]" "heap_delete p h = Some h'"
      | (none) "owned n = []" "h' = h"
      using assms False
      by (cases "kind n") (auto simp: clean_def owned_def split: option.splits)
    then show ?thesis
    proof cases
      case one
      then show ?thesis
        using heap_delete_frame(1)[OF one(2)] heap_delete_frame(2)[OF one(2)] by simp
    next
      case none
      then show ?thesis by simp
    qed
  qed
  from both show "\<forall>p \<in> set (owned n). heap_lookup h' p = None" by blast
  from both show "\<forall>q. q \<notin> set (owned n) \<longrightarrow> heap_lookup h' q = heap_lookup h q" by blast
qed

lemma Ast_remove_releases:
  assumes "Ast_remove index a h = Some (a', h')"
  shows "\<forall>p \<in> set (owned (nodes a ! unat index)). heap_lookup h' p = None"
    and "get_node index a' = Some \<lparr>kind = None_Kind, node = Node_zero\<rparr>"
    and "removed a' = removed a @ [index]"
proof -
  note r = Ast_remove_Some[OF assms]
  from r clean_frame(1) show "\<forall>p \<in> set (owned (nodes a ! unat index)). heap_lookup h' p = None"
    by blast
  from r show "get_node index a' = Some \<lparr>kind = None_Kind, node = Node_zero\<rparr>"
    by (simp add: get_node_def)
  from r show "removed a' = removed a @ [index]" by simp
qed

text \<open>
  C9: \<^verbatim>\<open>remove\<close> pushes at the back of the free list and \<^verbatim>\<open>create\<close> pops from the
  back: after \<^verbatim>\<open>remove(h1)\<close> and then \<^verbatim>\<open>remove(h2)\<close>, the next \<^verbatim>\<open>create\<close> returns
  \<open>h2\<close> and the one after it returns \<open>h1\<close>, and the free list is then as it was before
  the two removals.
\<close>

theorem recycling_is_lifo:
  assumes "Ast_remove h1 a hp = Some (a1, hp1)" and "Ast_remove h2 a1 hp1 = Some (a2, hp2)"
  shows "removed a2 = removed a @ [h1, h2] \<and>
         (\<exists>a3. Ast_create k a2 = Some (h2, a3) \<and> removed a3 = removed a @ [h1] \<and>
            (\<exists>a4. Ast_create k' a3 = Some (h1, a4) \<and> removed a4 = removed a))"
proof -
  note r1 = Ast_remove_Some[OF assms(1)] and r2 = Ast_remove_Some[OF assms(2)]
  have rem2: "removed a2 = removed a @ [h1, h2]" using r1 r2 by simp
  have len: "length (nodes a2) = length (nodes a)" using r1 r2 by simp
  have in2: "unat h2 < length (nodes a2)" and in1: "unat h1 < length (nodes a2)"
    using r1 r2 by simp_all
  define a3 where "a3 = a2\<lparr>nodes := (nodes a2)[unat h2 := (nodes a2 ! unat h2)\<lparr>kind := k\<rparr>],
                           removed := butlast (removed a2)\<rparr>"
  have c3: "Ast_create k a2 = Some (h2, a3)"
    using Ast_create_reuse[of a2 k] in2 by (simp add: rem2 a3_def)
  have rem3: "removed a3 = removed a @ [h1]" by (simp add: a3_def rem2 butlast_append)
  have in3: "unat h1 < length (nodes a3)" using in1 by (simp add: a3_def)
  have "\<exists>a4. Ast_create k' a3 = Some (h1, a4) \<and> removed a4 = removed a"
    using Ast_create_reuse[of a3 k'] in3 by (simp add: rem3)
  with rem2 c3 rem3 show ?thesis by blast
qed

theorem recycling_is_lifo_witness:
  "Ast_remove 0 \<lparr>nodes = [AstNode_init I32Type, AstNode_init FunType,
                          AstNode_init Struct :: nat AstNode], removed = []\<rparr> [] =
     Some (\<lparr>nodes = [\<lparr>kind = None_Kind, node = Node_zero\<rparr>, AstNode_init FunType,
                     AstNode_init Struct], removed = [0]\<rparr>, []) \<and>
   Ast_remove 2 \<lparr>nodes = [\<lparr>kind = None_Kind, node = Node_zero\<rparr>, AstNode_init FunType,
                          AstNode_init Struct :: nat AstNode], removed = [0]\<rparr> [] =
     Some (\<lparr>nodes = [\<lparr>kind = None_Kind, node = Node_zero\<rparr>, AstNode_init FunType,
                     \<lparr>kind = None_Kind, node = Node_zero\<rparr>], removed = [0, 2]\<rparr>, []) \<and>
   Ast_create U8Type
     \<lparr>nodes = [\<lparr>kind = None_Kind, node = Node_zero\<rparr>, AstNode_init FunType,
               \<lparr>kind = None_Kind, node = Node_zero :: nat Node\<rparr>], removed = [0, 2]\<rparr> =
     Some (2, \<lparr>nodes = [\<lparr>kind = None_Kind, node = Node_zero\<rparr>, AstNode_init FunType,
                        \<lparr>kind = U8Type, node = Node_zero\<rparr>], removed = [0]\<rparr>) \<and>
   Ast_create F64Type
     \<lparr>nodes = [\<lparr>kind = None_Kind, node = Node_zero\<rparr>, AstNode_init FunType,
               \<lparr>kind = U8Type, node = Node_zero :: nat Node\<rparr>], removed = [0]\<rparr> =
     Some (0, \<lparr>nodes = [\<lparr>kind = F64Type, node = Node_zero\<rparr>, AstNode_init FunType,
                        \<lparr>kind = U8Type, node = Node_zero\<rparr>], removed = []\<rparr>)"
  using recycling_is_lifo [of 0
      "\<lparr>nodes = [AstNode_init I32Type, AstNode_init FunType,
                 AstNode_init Struct :: nat AstNode], removed = []\<rparr>" "[]"
      "\<lparr>nodes = [\<lparr>kind = None_Kind, node = Node_zero\<rparr>, AstNode_init FunType,
                 AstNode_init Struct], removed = [0]\<rparr>" "[]" 2
      "\<lparr>nodes = [\<lparr>kind = None_Kind, node = Node_zero\<rparr>, AstNode_init FunType,
                 \<lparr>kind = None_Kind, node = Node_zero\<rparr>], removed = [0, 2]\<rparr>" "[]"
      U8Type F64Type]
  by (simp add: arena_eval)

text \<open>
  C7: for a handle in range, a \<^verbatim>\<open>create\<close> that returns another handle leaves the node at
  the handle as it was, and so does a \<^verbatim>\<open>remove\<close> of another handle; that \<^verbatim>\<open>remove\<close>
  changes the heap at no address other than the pointers it deletes for the removed node.
\<close>

theorem other_slots_untouched:
  assumes "unat index < length (nodes a)"
  shows "(\<forall>k index' a'. Ast_create k a = Some (index', a') \<and> index' \<noteq> index \<longrightarrow>
            get_node index a' = get_node index a) \<and>
         (\<forall>index2 h a' h'. Ast_remove index2 a h = Some (a', h') \<and> index2 \<noteq> index \<longrightarrow>
            get_node index a' = get_node index a \<and>
            (\<forall>p. p \<notin> set (owned (nodes a ! unat index2)) \<longrightarrow>
               heap_lookup h' p = heap_lookup h p))"
proof -
  have cr: "get_node index a' = get_node index a"
    if "Ast_create k a = Some (index', a')" "index' \<noteq> index" for k index' a'
  proof (cases "removed a = []")
    case True
    with that assms show ?thesis
      by (auto simp: Ast_create_fresh get_node_def nth_append)
  next
    case False
    with that have "unat (last (removed a)) < length (nodes a)"
      by (auto simp: Ast_create_def Let_def split: if_splits)
    with False that assms show ?thesis
      by (auto simp: Ast_create_reuse get_node_def dest: unat_neq)
  qed
  have rm: "get_node index a' = get_node index a \<and>
            (\<forall>p. p \<notin> set (owned (nodes a ! unat index2)) \<longrightarrow>
               heap_lookup h' p = heap_lookup h p)"
    if "Ast_remove index2 a h = Some (a', h')" "index2 \<noteq> index" for index2 h a' h'
  proof -
    note r = Ast_remove_Some[OF that(1)]
    have "get_node index a' = get_node index a"
      using r assms unat_neq[OF that(2)] by (simp add: get_node_def)
    moreover have "\<forall>p. p \<notin> set (owned (nodes a ! unat index2)) \<longrightarrow>
               heap_lookup h' p = heap_lookup h p"
      using clean_frame(2) r by blast
    ultimately show ?thesis by blast
  qed
  from cr rm show ?thesis by blast
qed

theorem other_slots_untouched_witness:
  "unat (0 :: AstNodeIndex) <
     length (nodes \<lparr>nodes = [AstNode_init I32Type, AstNode_init FunType :: nat AstNode],
                    removed = []\<rparr>) \<and>
   Ast_create Struct
     \<lparr>nodes = [AstNode_init I32Type, AstNode_init FunType :: nat AstNode], removed = []\<rparr> =
     Some (2, \<lparr>nodes = [AstNode_init I32Type, AstNode_init FunType, AstNode_init Struct],
               removed = []\<rparr>) \<and>
   (2 :: AstNodeIndex) \<noteq> 0 \<and>
   get_node 0 \<lparr>nodes = [AstNode_init I32Type, AstNode_init FunType,
                        AstNode_init Struct :: nat AstNode], removed = []\<rparr> =
     get_node 0 \<lparr>nodes = [AstNode_init I32Type, AstNode_init FunType], removed = []\<rparr> \<and>
   Ast_remove 1
     \<lparr>nodes = [AstNode_init I32Type, AstNode_init FunType :: nat AstNode], removed = []\<rparr> [] =
     Some (\<lparr>nodes = [AstNode_init I32Type, \<lparr>kind = None_Kind, node = Node_zero\<rparr>],
            removed = [1]\<rparr>, []) \<and>
   (1 :: AstNodeIndex) \<noteq> 0 \<and>
   get_node 0 \<lparr>nodes = [AstNode_init I32Type, \<lparr>kind = None_Kind, node = Node_zero :: nat Node\<rparr>],
                removed = [1]\<rparr> =
     get_node 0 \<lparr>nodes = [AstNode_init I32Type, AstNode_init FunType], removed = []\<rparr>"
  using other_slots_untouched [of 0
      "\<lparr>nodes = [AstNode_init I32Type, AstNode_init FunType :: nat AstNode], removed = []\<rparr>"]
  by (simp add: arena_eval)

lemma Ast_step_shape:
  assumes "Ast_step c (a, h) = Some (a', h')"
    and "\<forall>index \<in> set (removed a). unat index < length (nodes a)"
  shows "length (nodes a) \<le> length (nodes a') \<and>
         (\<forall>index \<in> set (removed a').
            unat index < length (nodes a') \<and> (index \<in> set (removed a) \<or> c = Remove index))"
proof (cases c)
  case (Create k)
  show ?thesis
  proof (cases "removed a = []")
    case True
    with assms Create show ?thesis by (auto simp: Ast_create_fresh)
  next
    case False
    then have "unat (last (removed a)) < length (nodes a)" using assms(2) by simp
    with False assms Create show ?thesis
      by (auto simp: Ast_create_reuse dest!: in_set_butlastD)
  qed
next
  case (Remove index)
  with assms show ?thesis by (auto dest!: Ast_remove_Some)
next
  case (Set_kind index k)
  with assms show ?thesis by (auto split: if_splits)
next
  case (Set_payload index p)
  with assms show ?thesis by (auto split: if_splits)
next
  case (Set_heap hp)
  with assms show ?thesis by auto
qed

lemma Ast_run_shape:
  "Ast_run cs (a, h) = Some (a', h') \<Longrightarrow>
   \<forall>index \<in> set (removed a). unat index < length (nodes a) \<Longrightarrow>
   length (nodes a) \<le> length (nodes a') \<and>
   (\<forall>index \<in> set (removed a').
      unat index < length (nodes a') \<and> (index \<in> set (removed a) \<or> Remove index \<in> set cs))"
proof (induction cs arbitrary: a h)
  case Nil
  then show ?case by simp
next
  case (Cons c cs)
  from Cons.prems(1) obtain a1 h1 where
    step: "Ast_step c (a, h) = Some (a1, h1)" and run: "Ast_run cs (a1, h1) = Some (a', h')"
    by (auto split: option.splits)
  note s = Ast_step_shape[OF step Cons.prems(2)]
  then have inr: "\<forall>index \<in> set (removed a1). unat index < length (nodes a1)" by blast
  note r = Cons.IH[OF run inr]
  show ?case using s r by fastforce
qed

lemma Ast_run_removed:
  "Ast_run cs (Ast_init, h0) = Some (a, h) \<Longrightarrow>
   \<forall>index \<in> set (removed a). unat index < length (nodes a) \<and> Remove index \<in> set cs"
  using Ast_run_shape[of cs Ast_init h0 a h] by (simp add: Ast_init_def)

text \<open>
  C6: in any state of the arena reached from the empty arena by a sequence of calls,
  \<^verbatim>\<open>create(kind)\<close> with an empty free list appends a fresh slot, and the handle returned
  is the number of slots before the call (as a 32-bit handle; as a number whenever that
  count is below \<open>2^32\<close>); with a non-empty free list it appends nothing, returns the
  handle at the back of the free list, which an earlier call passed to \<^verbatim>\<open>remove\<close>, sets
  the kind of that slot and takes the handle off the free list.
\<close>

theorem create_reuse_or_fresh:
  assumes "Ast_run cs (Ast_init, h0) = Some (a, h)"
  shows "(removed a = [] \<longrightarrow>
            Ast_create k a =
              Some (of_nat (length (nodes a)), a\<lparr>nodes := nodes a @ [AstNode_init k]\<rparr>) \<and>
            (length (nodes a) < 2 ^ 32 \<longrightarrow>
               unat (of_nat (length (nodes a)) :: AstNodeIndex) = length (nodes a))) \<and>
         (removed a \<noteq> [] \<longrightarrow>
            (\<exists>a'. Ast_create k a = Some (last (removed a), a') \<and>
                  nodes a' = (nodes a)[unat (last (removed a)) :=
                                (nodes a ! unat (last (removed a)))\<lparr>kind := k\<rparr>] \<and>
                  removed a' = butlast (removed a)) \<and>
            Remove (last (removed a)) \<in> set cs)"
proof -
  have fresh: "removed a = [] \<longrightarrow>
      Ast_create k a =
        Some (of_nat (length (nodes a)), a\<lparr>nodes := nodes a @ [AstNode_init k]\<rparr>)"
    by (simp add: Ast_create_fresh)
  have count: "length (nodes a) < 2 ^ 32 \<longrightarrow>
      unat (of_nat (length (nodes a)) :: AstNodeIndex) = length (nodes a)"
    by (simp add: unat_of_nat)
  have reuse: "removed a \<noteq> [] \<longrightarrow>
      (\<exists>a'. Ast_create k a = Some (last (removed a), a') \<and>
            nodes a' = (nodes a)[unat (last (removed a)) :=
                          (nodes a ! unat (last (removed a)))\<lparr>kind := k\<rparr>] \<and>
            removed a' = butlast (removed a)) \<and>
      Remove (last (removed a)) \<in> set cs"
  proof
    assume ne: "removed a \<noteq> []"
    then have "last (removed a) \<in> set (removed a)" by simp
    with Ast_run_removed[OF assms]
    have r: "unat (last (removed a)) < length (nodes a)" "Remove (last (removed a)) \<in> set cs"
      by blast+
    show "(\<exists>a'. Ast_create k a = Some (last (removed a), a') \<and>
            nodes a' = (nodes a)[unat (last (removed a)) :=
                          (nodes a ! unat (last (removed a)))\<lparr>kind := k\<rparr>] \<and>
            removed a' = butlast (removed a)) \<and>
      Remove (last (removed a)) \<in> set cs"
      using r by (simp add: Ast_create_reuse[OF ne r(1)])
  qed
  from fresh count reuse show ?thesis by blast
qed

theorem create_reuse_or_fresh_witness:
  "Ast_run [Create I32Type, Create FunType, Remove 1] (Ast_init, []) =
     Some (\<lparr>nodes = [AstNode_init I32Type, \<lparr>kind = None_Kind, node = Node_zero :: nat Node\<rparr>],
            removed = [1]\<rparr>, []) \<and>
   Ast_create Struct
     \<lparr>nodes = [AstNode_init I32Type, \<lparr>kind = None_Kind, node = Node_zero :: nat Node\<rparr>],
      removed = [1]\<rparr> =
     Some (1, \<lparr>nodes = [AstNode_init I32Type, \<lparr>kind = Struct, node = Node_zero\<rparr>],
               removed = []\<rparr>) \<and>
   Remove 1 \<in> set [Create I32Type, Create FunType, Remove 1 :: nat Ast_call] \<and>
   Ast_run [Create I32Type] (Ast_init, []) =
     Some (\<lparr>nodes = [AstNode_init I32Type :: nat AstNode], removed = []\<rparr>, []) \<and>
   Ast_create Struct \<lparr>nodes = [AstNode_init I32Type :: nat AstNode], removed = []\<rparr> =
     Some (1, \<lparr>nodes = [AstNode_init I32Type, AstNode_init Struct], removed = []\<rparr>)"
  using create_reuse_or_fresh [of "[Create I32Type, Create FunType, Remove 1]" "[]"
      "\<lparr>nodes = [AstNode_init I32Type, \<lparr>kind = None_Kind, node = Node_zero :: nat Node\<rparr>],
        removed = [1]\<rparr>" "[]" Struct]
    create_reuse_or_fresh [of "[Create I32Type]" "[]"
      "\<lparr>nodes = [AstNode_init I32Type :: nat AstNode], removed = []\<rparr>" "[]" Struct]
  by (simp add: arena_eval)

lemma free_slots_clean_init: "free_slots_clean Ast_init"
  by (simp add: free_slots_clean_def Ast_init_def)

lemma free_slots_clean_step:
  assumes "free_slots_clean a" and "permitted c a" and "Ast_step c (a, h) = Some (a', h')"
  shows "free_slots_clean a'"
proof (cases c)
  case (Create k)
  show ?thesis
  proof (cases "removed a = []")
    case True
    with assms Create show ?thesis
      by (auto simp: Ast_create_fresh free_slots_clean_def)
  next
    case False
    from assms(1) False have inr: "unat (last (removed a)) < length (nodes a)"
      by (simp add: free_slots_clean_def)
    from assms(3) Create False inr
    have a': "a' = a\<lparr>nodes := (nodes a)[unat (last (removed a)) :=
                        (nodes a ! unat (last (removed a)))\<lparr>kind := k\<rparr>],
                      removed := butlast (removed a)\<rparr>"
      by (auto simp: Ast_create_reuse)
    have d: "distinct (butlast (removed a))"
      using assms(1) by (simp add: free_slots_clean_def distinct_butlast)
    have slot: "unat index < length (nodes a) \<and>
        (nodes a)[unat (last (removed a)) := (nodes a ! unat (last (removed a)))\<lparr>kind := k\<rparr>]
          ! unat index = \<lparr>kind = None_Kind, node = Node_zero\<rparr>"
      if "index \<in> set (butlast (removed a))" for index
    proof -
      from that have mem: "index \<in> set (removed a)" by (rule in_set_butlastD)
      have "index \<noteq> last (removed a)"
      proof
        assume "index = last (removed a)"
        with that have "last (removed a) \<in> set (butlast (removed a))" by simp
        moreover have "removed a = butlast (removed a) @ [last (removed a)]"
          using False by simp
        ultimately show False
          using assms(1) by (metis distinct_append disjoint_iff
              free_slots_clean_def list.set_intros(1))
      qed
      then have "unat index \<noteq> unat (last (removed a))" by (rule unat_neq)
      with assms(1) mem show ?thesis by (simp add: free_slots_clean_def)
    qed
    show ?thesis using d slot by (simp add: free_slots_clean_def a')
  qed
next
  case (Remove index)
  note r = Ast_remove_Some[OF assms(3)[unfolded Remove Ast_step.simps]]
  from assms(2) Remove have lv: "index \<notin> set (removed a)" by (simp add: live_def)
  have "unat index \<noteq> unat j" if "j \<in> set (removed a)" for j
    using that lv unat_neq[of index j] by blast
  with assms(1) r lv show ?thesis
    by (auto simp: free_slots_clean_def nth_list_update)
next
  case (Set_kind index k)
  from assms(2) Set_kind have lv: "index \<notin> set (removed a)" by (simp add: live_def)
  have "unat index \<noteq> unat j" if "j \<in> set (removed a)" for j
    using that lv unat_neq[of index j] by blast
  with assms Set_kind show ?thesis
    by (auto simp: free_slots_clean_def nth_list_update split: if_splits)
next
  case (Set_payload index p)
  from assms(2) Set_payload have lv: "index \<notin> set (removed a)" by (simp add: live_def)
  have "unat index \<noteq> unat j" if "j \<in> set (removed a)" for j
    using that lv unat_neq[of index j] by blast
  with assms Set_payload show ?thesis
    by (auto simp: free_slots_clean_def nth_list_update split: if_splits)
next
  case (Set_heap hp)
  with assms show ?thesis by auto
qed

lemma free_slots_clean_run:
  "disciplined cs (a, h) \<Longrightarrow> Ast_run cs (a, h) = Some (a', h') \<Longrightarrow>
   free_slots_clean a \<Longrightarrow> free_slots_clean a'"
proof (induction cs arbitrary: a h)
  case Nil
  then show ?case by simp
next
  case (Cons c cs)
  from Cons.prems(2) obtain a1 h1 where
    step: "Ast_step c (a, h) = Some (a1, h1)" and run: "Ast_run cs (a1, h1) = Some (a', h')"
    by (auto split: option.splits)
  from Cons.prems(1) step have p: "permitted c a" and d: "disciplined cs (a1, h1)"
    by simp_all
  from free_slots_clean_step[OF Cons.prems(3) p step] have "free_slots_clean a1" .
  from Cons.IH[OF d run this] show ?case .
qed

lemma kind_persists_step:
  assumes "Ast_step c (a, h) = Some (a', h')"
    and "unat index < length (nodes a)" and "index \<notin> set (removed a)"
    and "c \<noteq> Remove index" and "\<forall>k'. c \<noteq> Set_kind index k'"
  shows "unat index < length (nodes a') \<and> index \<notin> set (removed a') \<and>
         kind (nodes a' ! unat index) = kind (nodes a ! unat index)"
proof (cases c)
  case (Create k)
  show ?thesis
  proof (cases "removed a = []")
    case True
    with assms Create show ?thesis
      by (auto simp: Ast_create_fresh nth_append)
  next
    case False
    with assms(1) Create have inr: "unat (last (removed a)) < length (nodes a)"
      by (auto simp: Ast_create_def Let_def split: if_splits)
    from False assms(3) have "last (removed a) \<noteq> index" by (metis last_in_set)
    then have "unat (last (removed a)) \<noteq> unat index" by (rule unat_neq)
    with assms Create False inr show ?thesis
      by (auto simp: Ast_create_reuse dest: in_set_butlastD)
  qed
next
  case (Remove j)
  note r = Ast_remove_Some[OF assms(1)[unfolded Remove Ast_step.simps]]
  from assms(4) Remove have "j \<noteq> index" by simp
  then have "unat j \<noteq> unat index" by (rule unat_neq)
  with r assms \<open>j \<noteq> index\<close> show ?thesis by simp
next
  case (Set_kind j k)
  with assms(5) have "j \<noteq> index" by auto
  then have "unat j \<noteq> unat index" by (rule unat_neq)
  with assms Set_kind show ?thesis by (auto split: if_splits)
next
  case (Set_payload j p)
  with assms show ?thesis
    by (cases "unat j = unat index") (auto split: if_splits)
next
  case (Set_heap hp)
  with assms show ?thesis by auto
qed

lemma kind_persists_run:
  "Ast_run cs (a, h) = Some (a', h') \<Longrightarrow>
   unat index < length (nodes a) \<Longrightarrow> index \<notin> set (removed a) \<Longrightarrow>
   \<forall>c \<in> set cs. c \<noteq> Remove index \<and> (\<forall>k'. c \<noteq> Set_kind index k') \<Longrightarrow>
   unat index < length (nodes a') \<and> kind (nodes a' ! unat index) = kind (nodes a ! unat index)"
proof (induction cs arbitrary: a h)
  case Nil
  then show ?case by simp
next
  case (Cons c cs)
  from Cons.prems(1) obtain a1 h1 where
    step: "Ast_step c (a, h) = Some (a1, h1)" and run: "Ast_run cs (a1, h1) = Some (a', h')"
    by (auto split: option.splits)
  from Cons.prems(4) have c: "c \<noteq> Remove index" "\<forall>k'. c \<noteq> Set_kind index k'"
    and cs: "\<forall>c \<in> set cs. c \<noteq> Remove index \<and> (\<forall>k'. c \<noteq> Set_kind index k')"
    by simp_all
  note s = kind_persists_step[OF step Cons.prems(2,3) c]
  from s have s1: "unat index < length (nodes a1)" and s2: "index \<notin> set (removed a1)"
    and s3: "kind (nodes a1 ! unat index) = kind (nodes a ! unat index)" by simp_all
  from Cons.IH[OF run s1 s2 cs] s3 show ?case by simp
qed

text \<open>
  C4: in any state reached from the empty arena by calls that respect the caller
  discipline (removals and writes only through handles of live nodes), and holding fewer
  than \<open>2^32\<close> slots, \<^verbatim>\<open>create(k)\<close> returns a handle whose node has kind \<open>k\<close> and
  a payload in which every field of every member is \<open>0\<close> (every pointer null),
  whether the slot is fresh or recycled; and after any further calls
  among which there is no \<^verbatim>\<open>remove\<close> of that handle and no write to its kind, the node
  at the handle still has kind \<open>k\<close>.
\<close>

theorem create_gives_kind_and_zero_payload:
  assumes "disciplined cs (Ast_init, h0)" and "Ast_run cs (Ast_init, h0) = Some (a, h)"
    and "length (nodes a) < 2 ^ 32"
  shows "\<exists>index a'. Ast_create k a = Some (index, a') \<and>
           get_node index a' =
             Some \<lparr>kind = k,
                   node =
                     \<lparr>value = \<lparr>type = 0\<rparr>,
                      global_variable = \<lparr>Variable.value = \<lparr>type = 0\<rparr>, Variable.name = 0\<rparr>,
                      local_variable = \<lparr>Variable.value = \<lparr>type = 0\<rparr>, Variable.name = 0\<rparr>,
                      parenth_expr = \<lparr>UnaryExpr.expr = 0\<rparr>,
                      neg_expr = \<lparr>UnaryExpr.expr = 0\<rparr>,
                      assign_expr = \<lparr>left = 0, right = 0\<rparr>,
                      equal_expr = \<lparr>left = 0, right = 0\<rparr>,
                      great_expr = \<lparr>left = 0, right = 0\<rparr>,
                      great__or_equal_expr = \<lparr>left = 0, right = 0\<rparr>,
                      less_expr = \<lparr>left = 0, right = 0\<rparr>,
                      less_or_equal_expr = \<lparr>left = 0, right = 0\<rparr>,
                      string_literal = \<lparr>StringLiteral.value = \<lparr>type = 0\<rparr>, string = 0\<rparr>,
                      i8_literal = \<lparr>NumberLiteral.value = \<lparr>type = 0\<rparr>, literal_value = 0\<rparr>,
                      i16_literal = \<lparr>NumberLiteral.value = \<lparr>type = 0\<rparr>, literal_value = 0\<rparr>,
                      i32_literal = \<lparr>NumberLiteral.value = \<lparr>type = 0\<rparr>, literal_value = 0\<rparr>,
                      i64_literal = \<lparr>NumberLiteral.value = \<lparr>type = 0\<rparr>, literal_value = 0\<rparr>,
                      u8_literal = \<lparr>NumberLiteral.value = \<lparr>type = 0\<rparr>, literal_value = 0\<rparr>,
                      u16_literal = \<lparr>NumberLiteral.value = \<lparr>type = 0\<rparr>, literal_value = 0\<rparr>,
                      u32_literal = \<lparr>NumberLiteral.value = \<lparr>type = 0\<rparr>, literal_value = 0\<rparr>,
                      fun_type = \<lparr>return_type = 0, param_types = 0, FunType.name = 0\<rparr>,
                      names = 0,
                      struct_type = \<lparr>struct_scope = 0\<rparr>,
                      struct_field = \<lparr>StructField.value = \<lparr>type = 0\<rparr>, StructField.name = 0, offset = 0\<rparr>,
                      scope = \<lparr>outer_scope = 0, name = 0, dict = 0\<rparr>,
                      block_scope_block_stmt = 0,
                      function_type_with_named_params = 0,
                      variable_decl_stmt = \<lparr>variable = 0, init_expr = 0\<rparr>,
                      block_stmt = \<lparr>block_scope = 0, stmts = 0\<rparr>,
                      if_else_stmt = \<lparr>IfElseStmt.expr = 0, IfElseStmt.stmt = 0, else_stmt = 0\<rparr>,
                      while_stmt = \<lparr>expr = 0, stmt = 0\<rparr>\<rparr>\<rparr> \<and>
           (\<forall>cs' h' a'' h''.
              Ast_run cs' (a', h') = Some (a'', h'') \<and>
              (\<forall>c \<in> set cs'. c \<noteq> Remove index \<and> (\<forall>k'. c \<noteq> Set_kind index k')) \<longrightarrow>
              map_option kind (get_node index a'') = Some k)"
proof -
  from free_slots_clean_run[OF assms(1,2) free_slots_clean_init]
  have inv: "free_slots_clean a" .
  obtain index a' where cr: "Ast_create k a = Some (index, a')"
    and inr: "unat index < length (nodes a')" and fresh: "index \<notin> set (removed a')"
    and nd: "nodes a' ! unat index = \<lparr>kind = k, node = Node_zero\<rparr>"
  proof (cases "removed a = []")
    case True
    have u: "unat (of_nat (length (nodes a)) :: AstNodeIndex) = length (nodes a)"
      using assms(3) by (simp add: unat_of_nat)
    show ?thesis
      by (rule that[OF Ast_create_fresh[OF True]]) (simp_all add: u True AstNode_init_def)
  next
    case False
    from inv False have l: "unat (last (removed a)) < length (nodes a)"
      and z: "nodes a ! unat (last (removed a)) = \<lparr>kind = None_Kind, node = Node_zero\<rparr>"
      and d: "distinct (removed a)"
      by (simp_all add: free_slots_clean_def)
    have "removed a = butlast (removed a) @ [last (removed a)]" using False by simp
    with d have nb: "last (removed a) \<notin> set (butlast (removed a))"
      by (metis distinct_append disjoint_iff list.set_intros(1))
    show ?thesis
      by (rule that[OF Ast_create_reuse[OF False l]]) (simp_all add: l z nb)
  qed
  have now: "get_node index a' = Some \<lparr>kind = k, node = Node_zero\<rparr>"
    using inr nd by (simp add: get_node_def)
  have later: "map_option kind (get_node index a'') = Some k"
    if "Ast_run cs' (a', h') = Some (a'', h'')"
      "\<forall>c \<in> set cs'. c \<noteq> Remove index \<and> (\<forall>k'. c \<noteq> Set_kind index k')"
    for cs' h' a'' h''
    using kind_persists_run[OF that(1) inr fresh that(2)] nd by (simp add: get_node_def)
  from cr now [unfolded Node_zero_def] later show ?thesis by blast
qed

theorem create_gives_kind_and_zero_payload_witness:
  "disciplined
     [Create I32Type, Create FunType,
      Set_payload 1 (Node_zero\<lparr>fun_type := \<lparr>return_type = 0, param_types = 1, FunType.name = 7\<rparr>\<rparr>),
      Set_heap [Some (Vec [0, 0])], Remove 1] (Ast_init :: nat Ast, []) \<and>
   Ast_run
     [Create I32Type, Create FunType,
      Set_payload 1 (Node_zero\<lparr>fun_type := \<lparr>return_type = 0, param_types = 1, FunType.name = 7\<rparr>\<rparr>),
      Set_heap [Some (Vec [0, 0])], Remove 1] (Ast_init :: nat Ast, []) =
     Some (\<lparr>nodes = [AstNode_init I32Type, \<lparr>kind = None_Kind, node = Node_zero\<rparr>],
            removed = [1]\<rparr>, [None]) \<and>
   length (nodes \<lparr>nodes = [AstNode_init I32Type, \<lparr>kind = None_Kind, node = Node_zero :: nat Node\<rparr>],
                   removed = [1]\<rparr>) < 2 ^ 32 \<and>
   Ast_create Struct
     \<lparr>nodes = [AstNode_init I32Type, \<lparr>kind = None_Kind, node = Node_zero :: nat Node\<rparr>],
      removed = [1]\<rparr> =
     Some (1, \<lparr>nodes = [AstNode_init I32Type, \<lparr>kind = Struct, node = Node_zero\<rparr>],
               removed = []\<rparr>) \<and>
   get_node 1 \<lparr>nodes = [AstNode_init I32Type, \<lparr>kind = Struct, node = Node_zero :: nat Node\<rparr>],
                removed = []\<rparr> =
     Some \<lparr>kind = Struct,
           node =
             \<lparr>value = \<lparr>type = 0\<rparr>,
              global_variable = \<lparr>Variable.value = \<lparr>type = 0\<rparr>, Variable.name = 0\<rparr>,
              local_variable = \<lparr>Variable.value = \<lparr>type = 0\<rparr>, Variable.name = 0\<rparr>,
              parenth_expr = \<lparr>UnaryExpr.expr = 0\<rparr>,
              neg_expr = \<lparr>UnaryExpr.expr = 0\<rparr>,
              assign_expr = \<lparr>left = 0, right = 0\<rparr>,
              equal_expr = \<lparr>left = 0, right = 0\<rparr>,
              great_expr = \<lparr>left = 0, right = 0\<rparr>,
              great__or_equal_expr = \<lparr>left = 0, right = 0\<rparr>,
              less_expr = \<lparr>left = 0, right = 0\<rparr>,
              less_or_equal_expr = \<lparr>left = 0, right = 0\<rparr>,
              string_literal = \<lparr>StringLiteral.value = \<lparr>type = 0\<rparr>, string = 0\<rparr>,
              i8_literal = \<lparr>NumberLiteral.value = \<lparr>type = 0\<rparr>, literal_value = 0\<rparr>,
              i16_literal = \<lparr>NumberLiteral.value = \<lparr>type = 0\<rparr>, literal_value = 0\<rparr>,
              i32_literal = \<lparr>NumberLiteral.value = \<lparr>type = 0\<rparr>, literal_value = 0\<rparr>,
              i64_literal = \<lparr>NumberLiteral.value = \<lparr>type = 0\<rparr>, literal_value = 0\<rparr>,
              u8_literal = \<lparr>NumberLiteral.value = \<lparr>type = 0\<rparr>, literal_value = 0\<rparr>,
              u16_literal = \<lparr>NumberLiteral.value = \<lparr>type = 0\<rparr>, literal_value = 0\<rparr>,
              u32_literal = \<lparr>NumberLiteral.value = \<lparr>type = 0\<rparr>, literal_value = 0\<rparr>,
              fun_type = \<lparr>return_type = 0, param_types = 0, FunType.name = 0\<rparr>,
              names = 0,
              struct_type = \<lparr>struct_scope = 0\<rparr>,
              struct_field = \<lparr>StructField.value = \<lparr>type = 0\<rparr>, StructField.name = 0, offset = 0\<rparr>,
              scope = \<lparr>outer_scope = 0, name = 0, dict = 0\<rparr>,
              block_scope_block_stmt = 0,
              function_type_with_named_params = 0,
              variable_decl_stmt = \<lparr>variable = 0, init_expr = 0\<rparr>,
              block_stmt = \<lparr>block_scope = 0, stmts = 0\<rparr>,
              if_else_stmt = \<lparr>IfElseStmt.expr = 0, IfElseStmt.stmt = 0, else_stmt = 0\<rparr>,
              while_stmt = \<lparr>expr = 0, stmt = 0\<rparr>\<rparr>\<rparr> \<and>
   map_option kind
     (get_node 1
        (fst (the (Ast_run [Create I8Type, Remove 0, Set_payload 1 (Node_zero\<lparr>names := 3\<rparr>)]
                     (\<lparr>nodes = [AstNode_init I32Type,
                                 \<lparr>kind = Struct, node = Node_zero :: nat Node\<rparr>],
                        removed = []\<rparr>, [None]))))) = Some Struct \<and>
   disciplined [] (Ast_init :: nat Ast, []) \<and>
   Ast_run [] (Ast_init :: nat Ast, []) = Some (Ast_init, []) \<and>
   length (nodes (Ast_init :: nat Ast)) < 2 ^ 32 \<and>
   Ast_create Struct (Ast_init :: nat Ast) =
     Some (0, \<lparr>nodes = [\<lparr>kind = Struct, node = Node_zero\<rparr>], removed = []\<rparr>) \<and>
   get_node 0 \<lparr>nodes = [\<lparr>kind = Struct, node = Node_zero :: nat Node\<rparr>], removed = []\<rparr> =
     Some \<lparr>kind = Struct,
           node =
             \<lparr>value = \<lparr>type = 0\<rparr>,
              global_variable = \<lparr>Variable.value = \<lparr>type = 0\<rparr>, Variable.name = 0\<rparr>,
              local_variable = \<lparr>Variable.value = \<lparr>type = 0\<rparr>, Variable.name = 0\<rparr>,
              parenth_expr = \<lparr>UnaryExpr.expr = 0\<rparr>,
              neg_expr = \<lparr>UnaryExpr.expr = 0\<rparr>,
              assign_expr = \<lparr>left = 0, right = 0\<rparr>,
              equal_expr = \<lparr>left = 0, right = 0\<rparr>,
              great_expr = \<lparr>left = 0, right = 0\<rparr>,
              great__or_equal_expr = \<lparr>left = 0, right = 0\<rparr>,
              less_expr = \<lparr>left = 0, right = 0\<rparr>,
              less_or_equal_expr = \<lparr>left = 0, right = 0\<rparr>,
              string_literal = \<lparr>StringLiteral.value = \<lparr>type = 0\<rparr>, string = 0\<rparr>,
              i8_literal = \<lparr>NumberLiteral.value = \<lparr>type = 0\<rparr>, literal_value = 0\<rparr>,
              i16_literal = \<lparr>NumberLiteral.value = \<lparr>type = 0\<rparr>, literal_value = 0\<rparr>,
              i32_literal = \<lparr>NumberLiteral.value = \<lparr>type = 0\<rparr>, literal_value = 0\<rparr>,
              i64_literal = \<lparr>NumberLiteral.value = \<lparr>type = 0\<rparr>, literal_value = 0\<rparr>,
              u8_literal = \<lparr>NumberLiteral.value = \<lparr>type = 0\<rparr>, literal_value = 0\<rparr>,
              u16_literal = \<lparr>NumberLiteral.value = \<lparr>type = 0\<rparr>, literal_value = 0\<rparr>,
              u32_literal = \<lparr>NumberLiteral.value = \<lparr>type = 0\<rparr>, literal_value = 0\<rparr>,
              fun_type = \<lparr>return_type = 0, param_types = 0, FunType.name = 0\<rparr>,
              names = 0,
              struct_type = \<lparr>struct_scope = 0\<rparr>,
              struct_field = \<lparr>StructField.value = \<lparr>type = 0\<rparr>, StructField.name = 0, offset = 0\<rparr>,
              scope = \<lparr>outer_scope = 0, name = 0, dict = 0\<rparr>,
              block_scope_block_stmt = 0,
              function_type_with_named_params = 0,
              variable_decl_stmt = \<lparr>variable = 0, init_expr = 0\<rparr>,
              block_stmt = \<lparr>block_scope = 0, stmts = 0\<rparr>,
              if_else_stmt = \<lparr>IfElseStmt.expr = 0, IfElseStmt.stmt = 0, else_stmt = 0\<rparr>,
              while_stmt = \<lparr>expr = 0, stmt = 0\<rparr>\<rparr>\<rparr>"
  unfolding Node_zero_def [symmetric]
  using create_gives_kind_and_zero_payload [of "[]" "[]" "Ast_init :: nat Ast" "[]" Struct]
    create_gives_kind_and_zero_payload
    [of "[Create I32Type, Create FunType,
          Set_payload 1 (Node_zero\<lparr>fun_type := \<lparr>return_type = 0, param_types = 1, FunType.name = 7\<rparr>\<rparr>),
          Set_heap [Some (Vec [0, 0])], Remove 1]" "[]"
        "\<lparr>nodes = [AstNode_init I32Type, \<lparr>kind = None_Kind, node = Node_zero :: nat Node\<rparr>],
          removed = [1]\<rparr>" "[None]" Struct]
  by (simp add: arena_eval)

text \<open>
  C5: \<open>add_node\<close> on the scope of a node allocates its dictionary. Removing a
  \<^verbatim>\<open>BlockScope\<close> node that owns a dictionary clears the slot and pushes the handle on the
  free list, but leaves the dictionary allocated, with no pointer to it left; the same
  removal on a \<^verbatim>\<open>Function\<close> node deletes the dictionary. (For the kinds that \<open>clean\<close>
  has a case for, \<open>Ast_remove_releases\<close> shows that every owned list and dictionary is
  deleted.)
\<close>

theorem remove_BlockScope_keeps_dict:
  "add_node (4294967295 :: nat) 5 3 \<lparr>outer_scope = 0, name = 0, dict = 0\<rparr> [] =
     Some (\<lparr>outer_scope = 0, name = 0, dict = 1\<rparr>,
           [Some (Dict (OrderedDict_append 3 5 OrderedDict_init))]) \<and>
   Ast_remove 0
     \<lparr>nodes = [\<lparr>kind = BlockScope,
                 node = Node_zero\<lparr>scope := \<lparr>outer_scope = 0, name = 0 :: nat, dict = 1\<rparr>\<rparr>\<rparr>],
      removed = []\<rparr>
     [Some (Dict (OrderedDict_append 3 5 OrderedDict_init))] =
     Some (\<lparr>nodes = [\<lparr>kind = None_Kind, node = Node_zero\<rparr>], removed = [0]\<rparr>,
           [Some (Dict (OrderedDict_append 3 5 OrderedDict_init))]) \<and>
   Ast_remove 0
     \<lparr>nodes = [\<lparr>kind = Function,
                 node = Node_zero\<lparr>scope := \<lparr>outer_scope = 0, name = 0 :: nat, dict = 1\<rparr>\<rparr>\<rparr>],
      removed = []\<rparr>
     [Some (Dict (OrderedDict_append 3 5 OrderedDict_init))] =
     Some (\<lparr>nodes = [\<lparr>kind = None_Kind, node = Node_zero\<rparr>], removed = [0]\<rparr>, [None])"
  by (simp add: arena_eval add_node_def heap_new_def heap_store_def)

end
